theory Spec2Isabelle
  imports Main "HOL-Library.Word" "HOL-Library.Char_ord" "HOL-Library.List_Lexorder"
begin

section \<open>The request pipeline of package oanda\<close>

text \<open>
  The package builds HTTP requests through an ordered list of request modifiers, sends
  them on an HTTP client and decodes the answer either into the caller's value or into
  an \<open>ApiError\<close>. The Go standard library stands behind every step; the parts of it
  the repository's code relies on are written out below, and the parts that depend on
  the outside world (parsing a URL, the answer of the network, the JSON decoder at a
  given Go type) are arguments of the functions that use them.
\<close>

subsection \<open>Headers (net/http.Header)\<close>

text \<open>
  An \<open>http.Header\<close> is a \<open>map[string][]string\<close> whose keys are in canonical MIME form:
  \<open>Set\<close> and \<open>Get\<close> canonicalise the key they are given. A key is canonicalised only
  when all its bytes are header-token bytes; then the first letter and every letter
  after a hyphen are upper case and all other letters are lower case.
\<close>

type_synonym Header = "string \<Rightarrow> string list option"

definition isLower :: "char \<Rightarrow> bool" where
  "isLower ch = (CHR ''a'' \<le> ch \<and> ch \<le> CHR ''z'')"

definition isUpper :: "char \<Rightarrow> bool" where
  "isUpper ch = (CHR ''A'' \<le> ch \<and> ch \<le> CHR ''Z'')"

definition isDigit :: "char \<Rightarrow> bool" where
  "isDigit ch = (CHR ''0'' \<le> ch \<and> ch \<le> CHR ''9'')"

definition toUpper :: "char \<Rightarrow> char" where
  "toUpper ch = (if isLower ch then char_of (of_char ch - (32::nat)) else ch)"

definition toLower :: "char \<Rightarrow> char" where
  "toLower ch = (if isUpper ch then char_of (of_char ch + (32::nat)) else ch)"

definition validHeaderFieldByte :: "char \<Rightarrow> bool" where
  "validHeaderFieldByte ch =
     (isLower ch \<or> isUpper ch \<or> isDigit ch \<or> ch \<in> set ''!#$%&*+-.^_`|~'' \<or> ch = CHR 0x27)"

fun canonicalise :: "bool \<Rightarrow> string \<Rightarrow> string" where
  "canonicalise upper [] = []"
| "canonicalise upper (ch # s) =
     (let ch' = (if upper then toUpper ch else toLower ch)
      in ch' # canonicalise (ch' = CHR ''-'') s)"

definition CanonicalMIMEHeaderKey :: "string \<Rightarrow> string" where
  "CanonicalMIMEHeaderKey s = (if list_all validHeaderFieldByte s then canonicalise True s else s)"

definition header_Set :: "Header \<Rightarrow> string \<Rightarrow> string \<Rightarrow> Header" where
  "header_Set h key v = h(CanonicalMIMEHeaderKey key \<mapsto> [v])"

definition header_Get :: "Header \<Rightarrow> string \<Rightarrow> string" where
  "header_Get h key =
     (case h (CanonicalMIMEHeaderKey key) of
        None \<Rightarrow> ''''
      | Some [] \<Rightarrow> ''''
      | Some (v # _) \<Rightarrow> v)"

subsection \<open>Requests and responses (net/http, net/url)\<close>

text \<open>
  The fields of \<open>url.URL\<close>, \<open>http.Request\<close> and \<open>http.Response\<close> that the package
  reads or writes. Field names are global in a theory, so \<open>Request.URL\<close> is \<open>ReqURL\<close>
  and the header and body of a response are \<open>RspHeader\<close> and \<open>RspBody\<close>. A request
  body is the reader handed to \<open>http.NewRequest\<close>: \<open>None\<close> is Go's nil, \<open>Some s\<close> a
  reader over the bytes \<open>s\<close>.
\<close>

record URL =
  Scheme :: string
  Opaque :: string
  Host :: string
  Path :: string
  RawQuery :: string
  Fragment :: string

record Request =
  Method :: string
  ReqURL :: URL
  Header :: Header
  Body :: "string option"

text \<open>
  A response body is a stream that is read once and then closed: the bytes not read yet
  and whether \<open>Close\<close> has been called. The stream is finite and reading it does not
  fail.
\<close>

record ReadCloser =
  unread :: string
  closed :: bool

record Response =
  StatusCode :: int
  RspHeader :: Header
  RspBody :: ReadCloser

subsection \<open>Request modifiers\<close>

text \<open>
  The interface \<open>requestModifier\<close> has four implementations, each a string type with a
  \<open>modify\<close> method that updates the request in place. The model returns the updated
  request.
\<close>

datatype requestModifier =
    TokenAuthenticator string
  | Environment string
  | DateFormat string
  | ContentType string

fun modify :: "requestModifier \<Rightarrow> Request \<Rightarrow> Request" where
  "modify (TokenAuthenticator a) req =
     req\<lparr>Header := header_Set (Header req) ''Authorization'' (''Bearer '' @ a)\<rparr>"
| "modify (Environment e) req =
     (let u = (ReqURL req)\<lparr>Scheme := ''https''\<rparr>;
          u = (if Host u = '''' then u\<lparr>Host := ''api-'' @ e @ ''.oanda.com''\<rparr> else u)
      in req\<lparr>ReqURL := u\<rparr>)"
| "modify (DateFormat d) req =
     req\<lparr>Header := header_Set (Header req) ''X-Accept-Datetime-Format'' d\<rparr>"
| "modify (ContentType c) req =
     (if Body req \<noteq> None
      then req\<lparr>Header := header_Set (Header req) ''Content-Type'' c\<rparr>
      else req)"

definition defaultDateFormat :: requestModifier where
  "defaultDateFormat = DateFormat ''UNIX''"

definition defaultContentType :: requestModifier where
  "defaultContentType = ContentType ''application/x-www-form-urlencoded''"

subsection \<open>Errors\<close>

text \<open>
  Every failure is a Go \<open>error\<close> value. The constructors separate the places an error
  comes from; the payload is the message of the underlying error, which the package
  passes on as it is. \<open>ApiErr\<close> is the pointer to an \<open>ApiError\<close> returned as an error.
\<close>

record ApiError =
  Code :: int
  Message :: string
  MoreInfo :: string

datatype error =
    ConfigurationError string
  | RequestConstructionError string
  | TransportError string
  | DecodeError string
  | ApiErr ApiError

subsection \<open>fmt.Sprintf and ApiError.Error\<close>

fun digits :: "nat \<Rightarrow> string" where
  "digits n =
     (if n < 10 then [char_of (48 + n)]
      else digits (n div 10) @ [char_of (48 + n mod 10)])"

declare digits.simps [simp del]

definition Sprintf_d :: "int \<Rightarrow> string" where
  "Sprintf_d i = (if i < 0 then ''-'' @ digits (nat (- i)) else digits (nat i))"

definition Error :: "ApiError \<Rightarrow> string" where
  "Error ae =
     ''ApiError{Code: '' @ Sprintf_d (Code ae) @ '', Message: '' @ Message ae
       @ '', Moreinfo: '' @ MoreInfo ae @ ''}''"

subsection \<open>Client\<close>

text \<open>
  A \<open>Client\<close> embeds a pointer to an \<open>http.Client\<close>. The model keeps it, as the field
  \<open>http_Client\<close>, as a value of an abstract type \<open>'t\<close>; what that HTTP client answers to
  a request is the argument \<open>Do\<close> of the functions that send one: \<open>Inl\<close> the message
  of its error, \<open>Inr\<close> its response. \<open>Id\<close> is \<open>uint64\<close>.
\<close>

type_synonym Id = "64 word"

record 't Client =
  reqMods :: "requestModifier list"
  accountId :: Id
  http_Client :: 't

definition AccountId :: "'t Client \<Rightarrow> Id" where
  "AccountId c = accountId c"

definition SelectAccount :: "'t Client \<Rightarrow> Id \<Rightarrow> 't Client" where
  "SelectAccount c a = c\<lparr>accountId := a\<rparr>"

definition newClient :: "'t \<Rightarrow> requestModifier list \<Rightarrow> 't Client" where
  "newClient hc reqMod =
     \<lparr>reqMods = [defaultDateFormat, defaultContentType] @ reqMod,
      accountId = 0,
      http_Client = hc\<rparr>"

text \<open>
  \<open>NewClient\<close> takes the package variable \<open>DefaultHttpClient\<close> as its first argument;
  the \<open>httpClient\<close> argument is \<open>None\<close> for Go's nil.
\<close>

definition NewClient :: "'t \<Rightarrow> string \<Rightarrow> string \<Rightarrow> 't option \<Rightarrow> error + 't Client" where
  "NewClient DefaultHttpClient environment token httpClient =
     (let hc = (case httpClient of None \<Rightarrow> DefaultHttpClient | Some h \<Rightarrow> h)
      in if environment = ''fxpractice''
         then Inr (newClient hc [Environment ''fxpractice'', TokenAuthenticator token])
         else if environment = ''fxtrade''
         then Inr (newClient hc [Environment ''fxtrade'', TokenAuthenticator token])
         else Inl (ConfigurationError (''Invalid Oanda environment '' @ environment)))"

definition NewFxPracticeClient :: "'t \<Rightarrow> string \<Rightarrow> error + 't Client" where
  "NewFxPracticeClient DefaultHttpClient token =
     (if token = '''' then Inl (ConfigurationError ''No FxPractice access token'')
      else NewClient DefaultHttpClient ''fxpractice'' token None)"

definition NewFxTradeClient :: "'t \<Rightarrow> string \<Rightarrow> error + 't Client" where
  "NewFxTradeClient DefaultHttpClient token =
     (if token = '''' then Inl (ConfigurationError ''No FxTrade access token'')
      else NewClient DefaultHttpClient ''fxtrade'' token None)"

text \<open>
  \<open>http.NewRequest\<close> takes the empty method for \<open>GET\<close>, refuses a method that is not
  a token, parses the URL and returns a request with that method, the given body and an
  empty header. The parser is the argument \<open>parse\<close>; of the error for a bad method
  only the fixed part of the message is kept.
\<close>

definition validMethod :: "string \<Rightarrow> bool" where
  "validMethod method = (length method > 0 \<and> list_all validHeaderFieldByte method)"

definition http_NewRequest ::
  "(string \<Rightarrow> string + URL) \<Rightarrow> string \<Rightarrow> string \<Rightarrow> string option \<Rightarrow> error + Request" where
  "http_NewRequest parse method urlStr body =
     (let method = (if method = '''' then ''GET'' else method)
      in if \<not> validMethod method
         then Inl (RequestConstructionError ''net/http: invalid method'')
         else case parse urlStr of
                Inl err \<Rightarrow> Inl (RequestConstructionError err)
              | Inr u \<Rightarrow> Inr \<lparr>Method = method, ReqURL = u, Header = Map.empty, Body = body\<rparr>)"

text \<open>The loop over \<open>c.reqMods\<close> applies each modifier to the request, first to last.\<close>

definition NewRequest ::
  "(string \<Rightarrow> string + URL) \<Rightarrow> 't Client \<Rightarrow> string \<Rightarrow> string \<Rightarrow> string option
     \<Rightarrow> error + Request" where
  "NewRequest parse c method urlStr body =
     (case http_NewRequest parse method urlStr body of
        Inl err \<Rightarrow> Inl err
      | Inr req \<Rightarrow> Inr (foldl (\<lambda>r reqMod. modify reqMod r) req (reqMods c)))"

subsection \<open>PollRequest\<close>

text \<open>The fields \<open>c\<close> and \<open>req\<close> of the Go struct are \<open>pr_c\<close> and \<open>pr_req\<close>.\<close>

record 't PollRequest =
  pr_c :: "'t Client"
  pr_req :: Request

text \<open>
  \<open>Poll\<close> returns the response or the error, and the poll request as the call leaves
  it: the header of the held request is updated in place.
\<close>

definition Poll ::
  "('t \<Rightarrow> Request \<Rightarrow> string + Response) \<Rightarrow> 't PollRequest
     \<Rightarrow> (error + Response) \<times> 't PollRequest" where
  "Poll Do pr =
     (case Do (http_Client (pr_c pr)) (pr_req pr) of
        Inl err \<Rightarrow> (Inl (TransportError err), pr)
      | Inr rsp \<Rightarrow>
          (let etag = header_Get (RspHeader rsp) ''ETag''
           in if etag \<noteq> ''''
              then (Inr rsp,
                    pr\<lparr>pr_req := (pr_req pr)\<lparr>Header :=
                         header_Set (Header (pr_req pr)) ''If-None-Match'' etag\<rparr>\<rparr>)
              else (Inr rsp, pr)))"

text \<open>
  A run of polls: the \<open>i\<close>-th call meets the network as the \<open>i\<close>-th element of \<open>Dos\<close>
  describes it.
\<close>

fun Polls ::
  "('t \<Rightarrow> Request \<Rightarrow> string + Response) list \<Rightarrow> 't PollRequest \<Rightarrow> 't PollRequest" where
  "Polls [] pr = pr"
| "Polls (Do # Dos) pr = Polls Dos (snd (Poll Do pr))"

subsection \<open>Form encoding (net/url.Values.Encode)\<close>

text \<open>
  \<open>url.Values\<close> is a \<open>map[string][]string\<close>, here the list of its entries. \<open>Encode\<close>
  walks the keys in sorted order and writes \<open>key=value\<close> for every value, escaped for
  a query component and separated by \<open>&\<close>.
\<close>

type_synonym Values = "(string \<times> string list) list"

definition shouldEscape :: "char \<Rightarrow> bool" where
  "shouldEscape ch =
     (\<not> (isLower ch \<or> isUpper ch \<or> isDigit ch \<or> ch \<in> set ''-_.~''))"

definition upperhex :: "nat \<Rightarrow> char" where
  "upperhex n = ''0123456789ABCDEF'' ! (n mod 16)"

definition escape_byte :: "char \<Rightarrow> string" where
  "escape_byte ch =
     (if ch = CHR '' '' then ''+''
      else if shouldEscape ch
      then [CHR ''%'', upperhex (of_char ch div 16), upperhex (of_char ch)]
      else [ch])"

definition QueryEscape :: "string \<Rightarrow> string" where
  "QueryEscape s = concat (map escape_byte s)"

definition Encode :: "Values \<Rightarrow> string" where
  "Encode v =
     foldl (\<lambda>buf (k, vs).
              foldl (\<lambda>buf x. (if buf \<noteq> '''' then buf @ ''&'' else buf)
                               @ QueryEscape k @ ''='' @ QueryEscape x) buf vs)
           '''' (sort_key fst v)"

subsection \<open>requestAndDecode\<close>

text \<open>
  \<open>closeResponse\<close> copies the rest of the body to \<open>ioutil.Discard\<close> and closes it.
\<close>

definition closeResponse :: "ReadCloser \<Rightarrow> ReadCloser" where
  "closeResponse rc = (rc\<lparr>unread := ''''\<rparr>)\<lparr>closed := True\<rparr>"

text \<open>
  \<open>json.NewDecoder(body).Decode(v)\<close> reads from the body and stores into the value \<open>v\<close>
  points to. At a given Go type it is a function from the unread bytes and the value
  before the call to the error (\<open>None\<close> for nil), the value after the call and the
  number of bytes taken from the body. The package decodes at two types, the caller's
  and \<open>ApiError\<close>, hence the two decoder arguments of \<open>requestAndDecode\<close>.
\<close>

type_synonym 'v Decoder = "string \<Rightarrow> 'v \<Rightarrow> string option \<times> 'v \<times> nat"

text \<open>
  What a call of \<open>requestAndDecode\<close> leaves behind: the error it returns, the value
  behind the pointer \<open>v\<close>, the request handed to the HTTP client (if the call got that
  far) and the response body (if there was a response) as the deferred
  \<open>closeResponse\<close> leaves it. The calls of \<open>debug\<close> and the \<open>trace\<close> reader of the
  debug build write to standard error and pass the body's bytes through; standard
  error is not part of the model.
\<close>

record 'v Outcome =
  out_err :: "error option"
  out_target :: 'v
  out_sent :: "Request option"
  out_body :: "ReadCloser option"

definition requestAndDecode ::
  "(string \<Rightarrow> string + URL) \<Rightarrow> ('t \<Rightarrow> Request \<Rightarrow> string + Response)
     \<Rightarrow> 'v Decoder \<Rightarrow> ApiError Decoder
     \<Rightarrow> 't Client \<Rightarrow> string \<Rightarrow> string \<Rightarrow> Values \<Rightarrow> 'v \<Rightarrow> 'v Outcome" where
  "requestAndDecode parse Do Decode_v Decode_apiErr c method urlStr data v =
     (let rdr = (if length data > 0 then Some (Encode data) else None)
      in case NewRequest parse c method urlStr rdr of
           Inl err \<Rightarrow>
             \<lparr>out_err = Some err, out_target = v, out_sent = None, out_body = None\<rparr>
         | Inr req \<Rightarrow>
             (case Do (http_Client c) req of
                Inl err \<Rightarrow>
                  \<lparr>out_err = Some (TransportError err), out_target = v,
                   out_sent = Some req, out_body = None\<rparr>
              | Inr rsp \<Rightarrow>
                  (let body = RspBody rsp
                   in if StatusCode rsp < 400
                      then (case Decode_v (unread body) v of
                              (err, v', n) \<Rightarrow>
                                \<lparr>out_err = map_option DecodeError err, out_target = v',
                                 out_sent = Some req,
                                 out_body = Some (closeResponse
                                   (body\<lparr>unread := drop n (unread body)\<rparr>))\<rparr>)
                      else (case Decode_apiErr (unread body)
                                   \<lparr>Code = 0, Message = '''', MoreInfo = ''''\<rparr> of
                              (err, apiErr, n) \<Rightarrow>
                                \<lparr>out_err = (case err of
                                             Some e \<Rightarrow> Some (DecodeError e)
                                           | None \<Rightarrow> Some (ApiErr apiErr)),
                                 out_target = v,
                                 out_sent = Some req,
                                 out_body = Some (closeResponse
                                   (body\<lparr>unread := drop n (unread body)\<rparr>))\<rparr>))))"

definition getAndDecode ::
  "(string \<Rightarrow> string + URL) \<Rightarrow> ('t \<Rightarrow> Request \<Rightarrow> string + Response)
     \<Rightarrow> 'v Decoder \<Rightarrow> ApiError Decoder
     \<Rightarrow> 't Client \<Rightarrow> string \<Rightarrow> 'v \<Rightarrow> 'v Outcome" where
  "getAndDecode parse Do Decode_v Decode_apiErr c urlStr v =
     requestAndDecode parse Do Decode_v Decode_apiErr c ''GET'' urlStr [] v"

subsection \<open>The documented effect of the modifiers on the header\<close>

text \<open>
  The specification describes each modifier by the header it sets: the token
  authenticator an authorization header, the date format a header naming the wanted
  encoding of timestamps, the content type a content-type header only when the request
  carries a body, the environment none. Applied one after the other, the last writer of
  a header wins and a header nobody writes again stays. These two definitions follow
  that description; the theorems compare them with \<open>modify\<close> and \<open>NewRequest\<close>.
\<close>

fun documented_header_effect :: "string option \<Rightarrow> requestModifier \<Rightarrow> (string \<times> string) list" where
  "documented_header_effect body (TokenAuthenticator a) = [(''Authorization'', ''Bearer '' @ a)]"
| "documented_header_effect body (Environment e) = []"
| "documented_header_effect body (DateFormat d) = [(''X-Accept-Datetime-Format'', d)]"
| "documented_header_effect body (ContentType c) =
     (if body = None then [] else [(''Content-Type'', c)])"

definition last_writer_wins :: "Header \<Rightarrow> (string \<times> string) list \<Rightarrow> Header" where
  "last_writer_wins h ws =
     (\<lambda>k. case map_of (rev ws) k of Some v \<Rightarrow> Some [v] | None \<Rightarrow> h k)"

subsection \<open>Concrete inputs\<close>

text \<open>
  The inputs the closed theorems below are evaluated at: a parser that takes every
  string for a path, a practice client, a server that answers every request with one
  given response, and decoders that know one body each.
\<close>

definition example_parse :: "string \<Rightarrow> string + URL" where
  "example_parse s =
     Inr \<lparr>Scheme = '''', Opaque = '''', Host = '''', Path = s, RawQuery = '''', Fragment = ''''\<rparr>"

definition example_client :: "unit Client" where
  "example_client = newClient () [Environment ''fxpractice'', TokenAuthenticator ''secret'']"

definition example_request :: Request where
  "example_request =
     \<lparr>Method = ''GET'',
      ReqURL = \<lparr>Scheme = '''', Opaque = '''', Host = '''', Path = ''/v1/candles'',
                RawQuery = '''', Fragment = ''''\<rparr>,
      Header = Map.empty,
      Body = None\<rparr>"

definition error_body :: string where
  \<open>error_body = ''{"code":1,"message":"bad","moreInfo":"see docs"}''\<close>

definition example_response :: "int \<Rightarrow> (string \<times> string list) list \<Rightarrow> string \<Rightarrow> Response" where
  "example_response status hdr s =
     \<lparr>StatusCode = status, RspHeader = map_of hdr, RspBody = \<lparr>unread = s, closed = False\<rparr>\<rparr>"

definition answer :: "Response \<Rightarrow> unit \<Rightarrow> Request \<Rightarrow> string + Response" where
  "answer rsp hc req = Inr rsp"

definition unreachable :: "unit \<Rightarrow> Request \<Rightarrow> string + Response" where
  "unreachable hc req = Inl ''dial tcp: i/o timeout''"

definition example_Decode_apiErr :: "ApiError Decoder" where
  "example_Decode_apiErr s a =
     (if s = error_body
      then (None, \<lparr>Code = 1, Message = ''bad'', MoreInfo = ''see docs''\<rparr>, length s)
      else (Some ''invalid character'', a, 0))"

definition example_Decode_int :: "int Decoder" where
  "example_Decode_int s v =
     (if s = ''7'' then (None, 7, 1) else (Some ''invalid character'', v, 0))"

definition example_PollRequest :: "unit PollRequest" where
  "example_PollRequest = \<lparr>pr_c = example_client, pr_req = example_request\<rparr>"

definition tagged :: Response where
  "tagged = example_response 200 [(''Etag'', [''v1''])] ''[]''"

definition untagged :: Response where
  "untagged = example_response 200 [] ''[]''"

text \<open>
  A poll request after a first poll answered with the entity tag \<open>v1\<close>, and after a
  second poll answered without one.
\<close>

definition after_first :: "unit PollRequest" where
  "after_first = snd (Poll (answer tagged) example_PollRequest)"

definition after_second :: "unit PollRequest" where
  "after_second = snd (Poll (answer untagged) after_first)"

definition example_data :: Values where
  "example_data = [(''units'', [''2'']), (''instrument'', [''EUR_USD''])]"

section \<open>Properties\<close>

subsection \<open>Header keys and the modifiers' frame\<close>

text \<open>The five header names of the package in canonical form; only \<open>ETag\<close> changes.\<close>

lemma key_Authorization: "CanonicalMIMEHeaderKey ''Authorization'' = ''Authorization''"
  by code_simp

lemma key_DateFormat:
  "CanonicalMIMEHeaderKey ''X-Accept-Datetime-Format'' = ''X-Accept-Datetime-Format''"
  by code_simp

lemma key_ContentType: "CanonicalMIMEHeaderKey ''Content-Type'' = ''Content-Type''"
  by code_simp

lemma key_ETag: "CanonicalMIMEHeaderKey ''ETag'' = ''Etag''"
  by code_simp

lemma key_IfNoneMatch: "CanonicalMIMEHeaderKey ''If-None-Match'' = ''If-None-Match''"
  by code_simp

lemmas header_keys = key_Authorization key_DateFormat key_ContentType key_ETag key_IfNoneMatch

text \<open>No modifier touches the body or the method of the request.\<close>

lemma modify_Body: "Body (modify m req) = Body req"
  by (cases m) (simp_all add: Let_def)

lemma modify_Method: "Method (modify m req) = Method req"
  by (cases m) (simp_all add: Let_def)

lemma foldl_modify_Body: "Body (foldl (\<lambda>r reqMod. modify reqMod r) req ms) = Body req"
  by (induction ms arbitrary: req) (simp_all add: modify_Body)

lemma foldl_modify_Method: "Method (foldl (\<lambda>r reqMod. modify reqMod r) req ms) = Method req"
  by (induction ms arbitrary: req) (simp_all add: modify_Method)

subsection \<open>The Environment modifier\<close>

text \<open>
  Claim C4. \<open>Environment.modify\<close> sets the scheme to \<open>https\<close>; a host that is set is
  kept, an empty host becomes \<open>api-\<close> + the environment name + \<open>.oanda.com\<close>; and
  applying the modifier twice gives the same request as applying it once.
\<close>

theorem Environment_modify_idempotent:
  "Scheme (ReqURL (modify (Environment e) req)) = ''https'' \<and>
   (Host (ReqURL req) \<noteq> '''' \<longrightarrow>
      Host (ReqURL (modify (Environment e) req)) = Host (ReqURL req)) \<and>
   (Host (ReqURL req) = '''' \<longrightarrow>
      Host (ReqURL (modify (Environment e) req)) = ''api-'' @ e @ ''.oanda.com'') \<and>
   modify (Environment e) (modify (Environment e) req) = modify (Environment e) req"
  by (simp add: Let_def)

text \<open>
  At the practice environment on a request without a host, and at the trade environment
  on the request that results, whose host is then set.
\<close>

theorem Environment_modify_idempotent_witness:
  "Scheme (ReqURL (modify (Environment ''fxpractice'') example_request)) = ''https'' \<and>
   Host (ReqURL (modify (Environment ''fxpractice'') example_request))
     = ''api-fxpractice.oanda.com'' \<and>
   Host (ReqURL (modify (Environment ''fxtrade'')
           (modify (Environment ''fxpractice'') example_request)))
     = ''api-fxpractice.oanda.com'' \<and>
   modify (Environment ''fxpractice'') (modify (Environment ''fxpractice'') example_request)
     = modify (Environment ''fxpractice'') example_request"
  using Environment_modify_idempotent [of "''fxpractice''" example_request]
        Environment_modify_idempotent [of "''fxtrade''"
          "modify (Environment ''fxpractice'') example_request"]
  by (simp add: example_request_def Let_def)

subsection \<open>The ContentType modifier\<close>

text \<open>
  Claim C8. \<open>ContentType.modify\<close> leaves a request without a body as it is, so no
  content-type header appears on it; on a request with a body it sets the
  \<open>Content-Type\<close> header to the configured media type and nothing else.
\<close>

theorem ContentType_modify_body:
  "(Body req = None \<longrightarrow> modify (ContentType c) req = req) \<and>
   (Body req \<noteq> None \<longrightarrow>
      Header (modify (ContentType c) req) ''Content-Type'' = Some [c] \<and>
      header_Get (Header (modify (ContentType c) req)) ''Content-Type'' = c)"
  by (simp add: header_Set_def header_Get_def key_ContentType)

theorem ContentType_modify_body_witness:
  "modify (ContentType ''application/x-www-form-urlencoded'') example_request = example_request \<and>
   header_Get (Header (modify (ContentType ''application/x-www-form-urlencoded'')
       (example_request\<lparr>Body := Some ''units=2''\<rparr>))) ''Content-Type''
     = ''application/x-www-form-urlencoded''"
  using ContentType_modify_body [of example_request "''application/x-www-form-urlencoded''"]
        ContentType_modify_body [of "example_request\<lparr>Body := Some ''units=2''\<rparr>"
          "''application/x-www-form-urlencoded''"]
  by (simp add: example_request_def)

subsection \<open>NewRequest: the modifiers in registration order\<close>

text \<open>
  One modifier changes the header as its documented effect says, and the effect of a
  list of writes is the effect of its parts in turn.
\<close>

lemma modify_Header:
  "Header (modify m req) = last_writer_wins (Header req) (documented_header_effect (Body req) m)"
  by (cases m) (auto simp: last_writer_wins_def header_Set_def header_keys Let_def fun_eq_iff)

lemma last_writer_wins_append:
  "last_writer_wins h (ws @ ws') = last_writer_wins (last_writer_wins h ws) ws'"
  by (auto simp: last_writer_wins_def fun_eq_iff map_add_def split: option.splits)

lemma foldl_modify_Header:
  "Header (foldl (\<lambda>r reqMod. modify reqMod r) req ms) =
     last_writer_wins (Header req) (concat (map (documented_header_effect (Body req)) ms))"
proof (induction ms arbitrary: req)
  case Nil
  show ?case by (simp add: last_writer_wins_def)
next
  case (Cons m ms)
  show ?case
    by (simp add: Cons.IH modify_Body modify_Header last_writer_wins_append)
qed

lemma foldl_modify_no_ContentType:
  assumes "Body req = None" and "Header req ''Content-Type'' = None"
  shows "Header (foldl (\<lambda>r reqMod. modify reqMod r) req ms) ''Content-Type'' = None"
  using assms
proof (induction ms arbitrary: req)
  case Nil
  then show ?case by simp
next
  case (Cons m ms)
  have "Body (modify m req) = None"
    using Cons.prems(1) by (simp add: modify_Body)
  moreover have "Header (modify m req) ''Content-Type'' = None"
    using Cons.prems by (cases m) (simp_all add: header_Set_def header_keys Let_def)
  ultimately show ?case
    using Cons.IH by simp
qed

lemma validMethod_GET: "validMethod ''GET''"
  by code_simp

lemma validMethod_POST: "validMethod ''POST''"
  by code_simp

lemma example_NewRequest:
  "\<exists>req. NewRequest example_parse example_client ''POST'' urlStr body = Inr req"
  by (simp add: NewRequest_def http_NewRequest_def example_parse_def validMethod_POST)

text \<open>
  Claim C5. A request built by \<open>NewRequest\<close> is the fresh request of
  \<open>http.NewRequest\<close> with the client's modifiers applied first to last; its header is
  the last-writer-wins composition of the documented effects of the modifiers in that
  order; and the modifiers of a client made by \<open>newClient\<close> are the default date
  format, the default content type and then the caller's modifiers in the order given.
\<close>

theorem NewRequest_last_writer_wins:
  assumes "NewRequest parse c method urlStr body = Inr req"
  shows "(\<exists>r0. http_NewRequest parse method urlStr body = Inr r0 \<and>
               req = foldl (\<lambda>r reqMod. modify reqMod r) r0 (reqMods c)) \<and>
         Header req =
           last_writer_wins Map.empty (concat (map (documented_header_effect body) (reqMods c))) \<and>
         reqMods (newClient hc reqMod) =
           DateFormat ''UNIX'' # ContentType ''application/x-www-form-urlencoded'' # reqMod"
  using assms
  by (auto simp: NewRequest_def http_NewRequest_def foldl_modify_Header newClient_def
        defaultDateFormat_def defaultContentType_def Let_def split: sum.splits if_splits)

text \<open>
  A client with a second date format registered after the defaults: the later one wins,
  the content type of the defaults stays, and nobody wrote an authorization header.
\<close>

theorem NewRequest_last_writer_wins_witness:
  "(\<exists>req. NewRequest example_parse (newClient () [DateFormat ''RFC3339''])
             ''POST'' ''/v1/accounts'' (Some ''currency=USD'') = Inr req \<and>
          header_Get (Header req) ''X-Accept-Datetime-Format'' = ''RFC3339'' \<and>
          header_Get (Header req) ''Content-Type'' = ''application/x-www-form-urlencoded'' \<and>
          header_Get (Header req) ''Authorization'' = '''') \<and>
   reqMods (newClient () [DateFormat ''RFC3339''])
     = [DateFormat ''UNIX'', ContentType ''application/x-www-form-urlencoded'',
        DateFormat ''RFC3339'']"
proof -
  obtain req where r: "NewRequest example_parse (newClient () [DateFormat ''RFC3339''])
      ''POST'' ''/v1/accounts'' (Some ''currency=USD'') = Inr req"
    by (auto simp: NewRequest_def http_NewRequest_def example_parse_def validMethod_POST)
  show ?thesis
    using NewRequest_last_writer_wins [OF r, of "()" "[DateFormat ''RFC3339'']"] r
    by (simp add: last_writer_wins_def header_Get_def header_keys)
qed

subsection \<open>requestAndDecode\<close>

text \<open>
  Claim C1. When the HTTP client returns a response, \<open>requestAndDecode\<close> takes one of
  two branches on the status alone. Below 400 the body is decoded into the caller's
  value and the error returned is the decoder's (nil or a decode error), never an
  \<open>ApiError\<close>. From 400 on the body is decoded into a fresh \<open>ApiError\<close>, whatever the
  type of the caller's value, which stays as it was: the \<open>ApiError\<close> is returned as
  the error, or the decoder's error if the body does not decode.
\<close>

theorem requestAndDecode_two_branches:
  assumes "NewRequest parse c method urlStr
             (if length data > 0 then Some (Encode data) else None) = Inr req"
      and "Do (http_Client c) req = Inr rsp"
  shows "(StatusCode rsp < 400 \<longrightarrow>
            out_err (requestAndDecode parse Do Decode_v Decode_apiErr c method urlStr data v)
              = map_option DecodeError (fst (Decode_v (unread (RspBody rsp)) v)) \<and>
            out_target (requestAndDecode parse Do Decode_v Decode_apiErr c method urlStr data v)
              = fst (snd (Decode_v (unread (RspBody rsp)) v)) \<and>
            (\<forall>ae. out_err (requestAndDecode parse Do Decode_v Decode_apiErr c method urlStr data v)
                   \<noteq> Some (ApiErr ae))) \<and>
         (400 \<le> StatusCode rsp \<longrightarrow>
            out_target (requestAndDecode parse Do Decode_v Decode_apiErr c method urlStr data v)
              = v \<and>
            out_err (requestAndDecode parse Do Decode_v Decode_apiErr c method urlStr data v)
              = (case Decode_apiErr (unread (RspBody rsp))
                        \<lparr>Code = 0, Message = '''', MoreInfo = ''''\<rparr> of
                   (None, apiErr, n) \<Rightarrow> Some (ApiErr apiErr)
                 | (Some e, apiErr, n) \<Rightarrow> Some (DecodeError e)))"
  using assms
  by (auto simp: requestAndDecode_def Let_def split: prod.splits option.splits)

text \<open>
  A 201 with the body \<open>7\<close>, a 404 with the error body, and a 500 whose body is not
  JSON.
\<close>

theorem requestAndDecode_two_branches_witness:
  "out_err (requestAndDecode example_parse (answer (example_response 201 [] ''7''))
       example_Decode_int example_Decode_apiErr example_client
       ''POST'' ''/v1/accounts/1/orders'' example_data 0) = None \<and>
   out_target (requestAndDecode example_parse (answer (example_response 201 [] ''7''))
       example_Decode_int example_Decode_apiErr example_client
       ''POST'' ''/v1/accounts/1/orders'' example_data 0) = 7 \<and>
   out_err (requestAndDecode example_parse (answer (example_response 404 [] error_body))
       example_Decode_int example_Decode_apiErr example_client
       ''POST'' ''/v1/accounts/1/orders'' example_data 0)
     = Some (ApiErr \<lparr>Code = 1, Message = ''bad'', MoreInfo = ''see docs''\<rparr>) \<and>
   out_target (requestAndDecode example_parse (answer (example_response 404 [] error_body))
       example_Decode_int example_Decode_apiErr example_client
       ''POST'' ''/v1/accounts/1/orders'' example_data 0) = 0 \<and>
   out_err (requestAndDecode example_parse (answer (example_response 500 [] ''<html>''))
       example_Decode_int example_Decode_apiErr example_client
       ''POST'' ''/v1/accounts/1/orders'' example_data 0)
     = Some (DecodeError ''invalid character'')"
proof -
  obtain req where r: "NewRequest example_parse example_client ''POST'' ''/v1/accounts/1/orders''
      (if length example_data > 0 then Some (Encode example_data) else None) = Inr req"
    using example_NewRequest by blast
  have d: "answer rsp (http_Client example_client) req = Inr rsp" for rsp
    by (simp add: answer_def)
  show ?thesis
    using requestAndDecode_two_branches [where Do = "answer (example_response 201 [] ''7'')"
            and Decode_v = example_Decode_int and v = 0
            and Decode_apiErr = example_Decode_apiErr, OF r d]
          requestAndDecode_two_branches [where Do = "answer (example_response 404 [] error_body)"
            and Decode_v = example_Decode_int and v = 0
            and Decode_apiErr = example_Decode_apiErr, OF r d]
          requestAndDecode_two_branches [where Do = "answer (example_response 500 [] ''<html>'')"
            and Decode_v = example_Decode_int and v = 0
            and Decode_apiErr = example_Decode_apiErr, OF r d]
    by (simp add: example_response_def example_Decode_int_def example_Decode_apiErr_def
          error_body_def)
qed

text \<open>
  Claim C6. Whenever the HTTP client returns a response, the body of that response is
  drained and closed when \<open>requestAndDecode\<close> returns: no byte is left unread and
  \<open>Close\<close> has been called, whatever the status and whether or not decoding succeeded.
\<close>

theorem requestAndDecode_closes_body:
  assumes "NewRequest parse c method urlStr
             (if length data > 0 then Some (Encode data) else None) = Inr req"
      and "Do (http_Client c) req = Inr rsp"
  shows "\<exists>rc. out_body (requestAndDecode parse Do Decode_v Decode_apiErr c method urlStr data v)
                = Some rc \<and> unread rc = '''' \<and> closed rc"
  using assms
  by (auto simp: requestAndDecode_def closeResponse_def Let_def split: prod.splits option.splits)

text \<open>A body of which the decoder reads only the first byte.\<close>

theorem requestAndDecode_closes_body_witness:
  "out_body (requestAndDecode example_parse (answer (example_response 201 [] ''7 trailing''))
       example_Decode_int example_Decode_apiErr example_client
       ''POST'' ''/v1/accounts/1/orders'' example_data 0)
     = Some \<lparr>unread = '''', closed = True\<rparr>"
proof -
  obtain req where r: "NewRequest example_parse example_client ''POST'' ''/v1/accounts/1/orders''
      (if length example_data > 0 then Some (Encode example_data) else None) = Inr req"
    using example_NewRequest by blast
  have d: "answer rsp (http_Client example_client) req = Inr rsp" for rsp
    by (simp add: answer_def)
  show ?thesis
    using requestAndDecode_closes_body [where Do = "answer (example_response 201 [] ''7 trailing'')"
            and Decode_v = example_Decode_int and v = 0
            and Decode_apiErr = example_Decode_apiErr, OF r d]
    by auto
qed

text \<open>
  Claim C7. For a response with status 400 whose body is
  \<open>{"code":1,"message":"bad","moreInfo":"see docs"}\<close>, decoded by the JSON decoder
  into the \<open>ApiError\<close> with code 1, message \<open>bad\<close> and more-info \<open>see docs\<close>,
  \<open>requestAndDecode\<close> returns that \<open>ApiError\<close> as its error, \<open>Error()\<close> renders it
  as \<open>ApiError{Code: 1, Message: bad, Moreinfo: see docs}\<close>, and the caller's value is
  left as it was.
\<close>

theorem requestAndDecode_ApiError_rendering:
  assumes "NewRequest parse c method urlStr
             (if length data > 0 then Some (Encode data) else None) = Inr req"
      and "Do (http_Client c) req = Inr rsp"
      and "StatusCode rsp = 400"
      and "unread (RspBody rsp) = error_body"
      and "Decode_apiErr error_body \<lparr>Code = 0, Message = '''', MoreInfo = ''''\<rparr>
             = (None, \<lparr>Code = 1, Message = ''bad'', MoreInfo = ''see docs''\<rparr>, n)"
  shows "\<exists>ae. out_err (requestAndDecode parse Do Decode_v Decode_apiErr c method urlStr data v)
                 = Some (ApiErr ae) \<and>
              Error ae = ''ApiError{Code: 1, Message: bad, Moreinfo: see docs}'' \<and>
              out_target (requestAndDecode parse Do Decode_v Decode_apiErr c method urlStr data v)
                 = v"
proof -
  have "Error \<lparr>Code = 1, Message = ''bad'', MoreInfo = ''see docs''\<rparr>
          = ''ApiError{Code: 1, Message: bad, Moreinfo: see docs}''"
    by code_simp
  then show ?thesis
    using assms by (simp add: requestAndDecode_def Let_def)
qed

theorem requestAndDecode_ApiError_rendering_witness:
  "\<exists>ae. out_err (requestAndDecode example_parse (answer (example_response 400 [] error_body))
              example_Decode_int example_Decode_apiErr example_client
              ''POST'' ''/v1/accounts/1/orders'' example_data 0) = Some (ApiErr ae) \<and>
         Error ae = ''ApiError{Code: 1, Message: bad, Moreinfo: see docs}'' \<and>
         out_target (requestAndDecode example_parse (answer (example_response 400 [] error_body))
              example_Decode_int example_Decode_apiErr example_client
              ''POST'' ''/v1/accounts/1/orders'' example_data 0) = 0"
proof -
  obtain req where r: "NewRequest example_parse example_client ''POST'' ''/v1/accounts/1/orders''
      (if length example_data > 0 then Some (Encode example_data) else None) = Inr req"
    using example_NewRequest by blast
  have d: "answer (example_response 400 [] error_body) (http_Client example_client) req
      = Inr (example_response 400 [] error_body)"
    by (simp add: answer_def)
  have s: "StatusCode (example_response 400 [] error_body) = 400"
    by (simp add: example_response_def)
  have b: "unread (RspBody (example_response 400 [] error_body)) = error_body"
    by (simp add: example_response_def)
  have j: "example_Decode_apiErr error_body \<lparr>Code = 0, Message = '''', MoreInfo = ''''\<rparr>
      = (None, \<lparr>Code = 1, Message = ''bad'', MoreInfo = ''see docs''\<rparr>, length error_body)"
    by (simp add: example_Decode_apiErr_def)
  show ?thesis
    using requestAndDecode_ApiError_rendering [where Do = "answer (example_response 400 [] error_body)"
            and Decode_v = example_Decode_int and v = 0
            and Decode_apiErr = example_Decode_apiErr, OF r d s b j]
    by simp
qed

text \<open>
  Claim C9. Given a URL that parses, the request \<open>requestAndDecode\<close> hands to the HTTP
  client has the given method; with parameters, its body is their form encoding, for
  every method; without parameters it has no body and no \<open>Content-Type\<close> header,
  whatever modifiers the client holds.
\<close>

theorem requestAndDecode_form_body:
  assumes "parse urlStr = Inr u"
      and "validMethod (if method = '''' then ''GET'' else method)"
  shows "\<exists>req. out_sent (requestAndDecode parse Do Decode_v Decode_apiErr c method urlStr data v)
                 = Some req \<and>
               Method req = (if method = '''' then ''GET'' else method) \<and>
               (data \<noteq> [] \<longrightarrow> Body req = Some (Encode data)) \<and>
               (data = [] \<longrightarrow> Body req = None \<and> Header req ''Content-Type'' = None
                                \<and> header_Get (Header req) ''Content-Type'' = '''')"
  using assms
  by (auto simp: requestAndDecode_def NewRequest_def http_NewRequest_def Let_def
        foldl_modify_Body foldl_modify_Method foldl_modify_no_ContentType
        header_Get_def key_ContentType
        split: prod.splits option.splits sum.splits)

theorem requestAndDecode_form_body_witness:
  "(\<exists>req. out_sent (requestAndDecode example_parse unreachable
               example_Decode_int example_Decode_apiErr example_client
               ''POST'' ''/v1/accounts/1/orders'' example_data 0) = Some req \<and>
          Method req = ''POST'' \<and>
          Body req = Some ''instrument=EUR_USD&units=2'') \<and>
   (\<exists>req. out_sent (requestAndDecode example_parse unreachable
               example_Decode_int example_Decode_apiErr example_client
               ''GET'' ''/v1/accounts'' [] 0) = Some req \<and>
          Method req = ''GET'' \<and>
          Body req = None \<and> header_Get (Header req) ''Content-Type'' = '''')"
proof -
  have p: "example_parse urlStr = Inr \<lparr>Scheme = '''', Opaque = '''', Host = '''', Path = urlStr,
      RawQuery = '''', Fragment = ''''\<rparr>" for urlStr
    by (simp add: example_parse_def)
  have e: "Encode example_data = ''instrument=EUR_USD&units=2''"
    unfolding example_data_def by code_simp
  have n: "example_data \<noteq> []"
    by (simp add: example_data_def)
  have vp: "validMethod (if ''POST'' = '''' then ''GET'' else ''POST'')"
    by (simp add: validMethod_POST)
  have vg: "validMethod (if ''GET'' = '''' then ''GET'' else ''GET'')"
    by (simp add: validMethod_GET)
  show ?thesis
    using requestAndDecode_form_body [of example_parse "''/v1/accounts/1/orders''" _ "''POST''"
            unreachable example_Decode_int example_Decode_apiErr example_client
            example_data 0, OF p vp]
          requestAndDecode_form_body [of example_parse "''/v1/accounts''" _ "''GET''"
            unreachable example_Decode_int example_Decode_apiErr example_client
            "[]" 0, OF p vg]
          e n
    by auto
qed

subsection \<open>Poll\<close>

text \<open>
  The three ways a call of \<open>Poll\<close> can go: the HTTP client fails, it answers without
  an entity tag, it answers with one.
\<close>

lemma Poll_error:
  "Do (http_Client (pr_c pr)) (pr_req pr) = Inl err \<Longrightarrow> Poll Do pr = (Inl (TransportError err), pr)"
  by (simp add: Poll_def)

lemma Poll_untagged:
  "Do (http_Client (pr_c pr)) (pr_req pr) = Inr rsp \<Longrightarrow> header_Get (RspHeader rsp) ''ETag'' = ''''
     \<Longrightarrow> Poll Do pr = (Inr rsp, pr)"
  by (simp add: Poll_def)

lemma Poll_tagged:
  "Do (http_Client (pr_c pr)) (pr_req pr) = Inr rsp \<Longrightarrow> header_Get (RspHeader rsp) ''ETag'' \<noteq> ''''
     \<Longrightarrow> Poll Do pr =
           (Inr rsp, pr\<lparr>pr_req := (pr_req pr)\<lparr>Header :=
              (Header (pr_req pr))(''If-None-Match'' \<mapsto> [header_Get (RspHeader rsp) ''ETag''])\<rparr>\<rparr>)"
  by (simp add: Poll_def header_Set_def key_IfNoneMatch)

lemma Poll_result:
  "fst (Poll Do pr) =
     (case Do (http_Client (pr_c pr)) (pr_req pr) of
        Inl err \<Rightarrow> Inl (TransportError err)
      | Inr rsp \<Rightarrow> Inr rsp)"
  by (simp add: Poll_def Let_def split: sum.splits)

lemma Poll_keeps_tag:
  assumes "header_Get (Header (pr_req pr)) ''If-None-Match'' \<noteq> ''''"
  shows "header_Get (Header (pr_req (snd (Poll Do pr)))) ''If-None-Match'' \<noteq> ''''"
proof (cases "Do (http_Client (pr_c pr)) (pr_req pr)")
  case (Inl err)
  then show ?thesis using assms by (simp add: Poll_error)
next
  case (Inr rsp)
  show ?thesis
  proof (cases "header_Get (RspHeader rsp) ''ETag'' = ''''")
    case True
    then show ?thesis using Inr assms by (simp add: Poll_untagged)
  next
    case False
    then show ?thesis using Inr by (simp add: Poll_tagged header_Get_def key_IfNoneMatch)
  qed
qed

text \<open>The two example responses and the example poll request after one and two polls.\<close>

lemma tagged_ETag: "header_Get (RspHeader tagged) ''ETag'' = ''v1''"
  by (simp add: tagged_def example_response_def header_Get_def key_ETag)

lemma untagged_ETag: "header_Get (RspHeader untagged) ''ETag'' = ''''"
  by (simp add: untagged_def example_response_def header_Get_def key_ETag)

lemma after_first_eq:
  "after_first = example_PollRequest\<lparr>pr_req := example_request\<lparr>Header :=
     (Header example_request)(''If-None-Match'' \<mapsto> [''v1''])\<rparr>\<rparr>"
  by (simp add: after_first_def Poll_tagged [where rsp = tagged] answer_def tagged_ETag
        example_PollRequest_def)

lemma after_first_tag: "header_Get (Header (pr_req after_first)) ''If-None-Match'' = ''v1''"
  by (simp add: after_first_eq header_Get_def key_IfNoneMatch)

lemma after_second_eq: "after_second = after_first"
  by (simp add: after_second_def Poll_untagged [where rsp = untagged] answer_def untagged_ETag)

text \<open>
  Claim C3, as amended. After a successful \<open>Poll\<close> whose response carries a non-empty
  \<open>ETag\<close>, the held request carries \<open>If-None-Match\<close> with exactly that value and is
  otherwise unchanged; after one whose response carries none, the held request is
  unchanged, so the next call carries whatever \<open>If-None-Match\<close> the request carried
  before, and none only if it carried none. The next call hands the held request to the
  HTTP client and returns the response as it is, or the error of the HTTP client.
\<close>

theorem Poll_conditional_request:
  assumes "Poll Do1 pr = (Inr rsp1, pr1)"
  shows "Do1 (http_Client (pr_c pr)) (pr_req pr) = Inr rsp1 \<and>
         pr_c pr1 = pr_c pr \<and>
         (header_Get (RspHeader rsp1) ''ETag'' \<noteq> '''' \<longrightarrow>
            header_Get (Header (pr_req pr1)) ''If-None-Match''
              = header_Get (RspHeader rsp1) ''ETag'' \<and>
            pr_req pr1 = (pr_req pr)\<lparr>Header :=
              (Header (pr_req pr))(''If-None-Match'' \<mapsto> [header_Get (RspHeader rsp1) ''ETag''])\<rparr>) \<and>
         (header_Get (RspHeader rsp1) ''ETag'' = '''' \<longrightarrow> pr_req pr1 = pr_req pr) \<and>
         fst (Poll Do2 pr1) =
           (case Do2 (http_Client (pr_c pr1)) (pr_req pr1) of
              Inl err \<Rightarrow> Inl (TransportError err)
            | Inr rsp2 \<Rightarrow> Inr rsp2)"
proof (cases "Do1 (http_Client (pr_c pr)) (pr_req pr)")
  case (Inl err)
  then show ?thesis using assms by (simp add: Poll_error)
next
  case (Inr rsp)
  show ?thesis
  proof (cases "header_Get (RspHeader rsp) ''ETag'' = ''''")
    case True
    then show ?thesis using Inr assms by (auto simp: Poll_untagged Poll_result)
  next
    case False
    then show ?thesis
      using Inr assms by (auto simp: Poll_tagged Poll_result header_Get_def key_IfNoneMatch)
  qed
qed

theorem Poll_conditional_request_witness:
  "header_Get (Header (pr_req after_first)) ''If-None-Match'' = ''v1'' \<and>
   fst (Poll unreachable after_first) = Inl (TransportError ''dial tcp: i/o timeout'') \<and>
   fst (Poll (answer untagged) after_first) = Inr untagged \<and>
   pr_req (snd (Poll (answer untagged) example_PollRequest)) = example_request"
proof -
  have h1: "Poll (answer tagged) example_PollRequest = (Inr tagged, after_first)"
    by (simp add: after_first_def prod_eq_iff Poll_result answer_def)
  have h2: "Poll (answer untagged) example_PollRequest
      = (Inr untagged, snd (Poll (answer untagged) example_PollRequest))"
    by (simp add: prod_eq_iff Poll_result answer_def)
  show ?thesis
    using Poll_conditional_request [OF h1, of unreachable]
          Poll_conditional_request [OF h1, of "answer untagged"]
          Poll_conditional_request [OF h2, of unreachable]
    by (simp add: tagged_ETag untagged_ETag unreachable_def answer_def example_PollRequest_def)
qed

text \<open>
  Claim C3 as stated fails on the second and third call of a run: the first response
  carried the tag \<open>v1\<close>, the second response (a successful call) carries no tag, and
  the request of the third call still carries \<open>If-None-Match: v1\<close>.
\<close>

theorem Poll_stale_tag_counterexample:
  "header_Get (RspHeader untagged) ''ETag'' = '''' \<and>
   Poll (answer untagged) after_first = (Inr untagged, after_second) \<and>
   fst (Poll (answer untagged) after_second) = Inr untagged \<and>
   header_Get (Header (pr_req after_second)) ''If-None-Match'' = ''v1''"
  by (simp add: untagged_ETag after_second_eq after_first_tag
        Poll_untagged [where rsp = untagged] answer_def)

text \<open>
  Claim C10. A \<open>Poll\<close> whose response carries no entity tag, or an empty one, leaves
  the poll request as it was, and so does a \<open>Poll\<close> on which the HTTP client fails,
  which returns that error. Over any run of polls an \<open>If-None-Match\<close> header, once
  there, is never cleared; over a run in which no response carries a tag the poll
  request does not change at all.
\<close>

theorem Poll_frame:
  "(Do (http_Client (pr_c pr)) (pr_req pr) = Inr rsp \<and> header_Get (RspHeader rsp) ''ETag'' = ''''
      \<longrightarrow> Poll Do pr = (Inr rsp, pr)) \<and>
   (Do (http_Client (pr_c pr)) (pr_req pr) = Inl err
      \<longrightarrow> Poll Do pr = (Inl (TransportError err), pr)) \<and>
   (header_Get (Header (pr_req pr)) ''If-None-Match'' \<noteq> ''''
      \<longrightarrow> header_Get (Header (pr_req (Polls Dos pr))) ''If-None-Match'' \<noteq> '''') \<and>
   ((\<forall>D \<in> set Dos. \<forall>hc r rsp'. D hc r = Inr rsp' \<longrightarrow> header_Get (RspHeader rsp') ''ETag'' = '''')
      \<longrightarrow> Polls Dos pr = pr)"
proof -
  have keep: "header_Get (Header (pr_req pr)) ''If-None-Match'' \<noteq> ''''
      \<Longrightarrow> header_Get (Header (pr_req (Polls Dos pr))) ''If-None-Match'' \<noteq> ''''"
    by (induction Dos arbitrary: pr) (simp_all add: Poll_keeps_tag)
  have same: "(\<forall>D \<in> set Dos. \<forall>hc r rsp'. D hc r = Inr rsp' \<longrightarrow> header_Get (RspHeader rsp') ''ETag'' = '''')
      \<Longrightarrow> Polls Dos pr = pr"
  proof (induction Dos arbitrary: pr)
    case Nil
    show ?case by simp
  next
    case (Cons D Dos)
    have "snd (Poll D pr) = pr"
    proof (cases "D (http_Client (pr_c pr)) (pr_req pr)")
      case (Inl e)
      then show ?thesis by (simp add: Poll_error)
    next
      case (Inr r)
      then have "header_Get (RspHeader r) ''ETag'' = ''''"
        using Cons.prems by simp
      then show ?thesis using Inr by (simp add: Poll_untagged)
    qed
    then show ?case using Cons by simp
  qed
  show ?thesis
    using keep same by (simp add: Poll_error Poll_untagged)
qed

theorem Poll_frame_witness:
  "Poll (answer untagged) after_first = (Inr untagged, after_first) \<and>
   Poll unreachable after_first = (Inl (TransportError ''dial tcp: i/o timeout''), after_first) \<and>
   header_Get (Header (pr_req (Polls [answer untagged, unreachable, answer tagged] after_first)))
       ''If-None-Match'' \<noteq> '''' \<and>
   Polls [answer untagged, unreachable, answer untagged] after_first = after_first"
proof -
  have u: "\<forall>D \<in> set [answer untagged, unreachable, answer untagged].
             \<forall>hc r rsp'. D hc r = Inr rsp' \<longrightarrow> header_Get (RspHeader rsp') ''ETag'' = ''''"
    by (auto simp: answer_def unreachable_def untagged_ETag)
  note f1 = Poll_frame [of "answer untagged" after_first untagged "''dial tcp: i/o timeout''"
      "[answer untagged, unreachable, answer tagged]"]
  note f2 = Poll_frame [of unreachable after_first untagged "''dial tcp: i/o timeout''"
      "[answer untagged, unreachable, answer untagged]"]
  have a: "Poll (answer untagged) after_first = (Inr untagged, after_first)"
    using conjunct1 [OF f1] by (simp add: answer_def untagged_ETag)
  have b: "Poll unreachable after_first
      = (Inl (TransportError ''dial tcp: i/o timeout''), after_first)"
    using conjunct1 [OF conjunct2 [OF f2]] by (simp add: unreachable_def)
  have c: "header_Get (Header (pr_req
      (Polls [answer untagged, unreachable, answer tagged] after_first))) ''If-None-Match'' \<noteq> ''''"
    using conjunct1 [OF conjunct2 [OF conjunct2 [OF f1]]] after_first_tag by simp
  have d: "Polls [answer untagged, unreachable, answer untagged] after_first = after_first"
    using conjunct2 [OF conjunct2 [OF conjunct2 [OF f2]]] u by blast
  show ?thesis
    using a b c d by blast
qed

subsection \<open>Construction\<close>

text \<open>
  What the three constructors return on every input: \<open>NewClient\<close> looks at the
  environment only, the named constructors at the token first.
\<close>

lemma NewClient_unknown_environment:
  "environment \<noteq> ''fxpractice'' \<Longrightarrow> environment \<noteq> ''fxtrade'' \<Longrightarrow>
     NewClient d environment token httpClient
       = Inl (ConfigurationError (''Invalid Oanda environment '' @ environment))"
  by (simp add: NewClient_def)

lemma NewClient_known_environment:
  "environment = ''fxpractice'' \<or> environment = ''fxtrade'' \<Longrightarrow>
     NewClient d environment token httpClient
       = Inr (newClient (case httpClient of None \<Rightarrow> d | Some h \<Rightarrow> h)
                [Environment environment, TokenAuthenticator token])"
  by (auto simp: NewClient_def)

lemma NewFxPracticeClient_result:
  "NewFxPracticeClient d token =
     (if token = '''' then Inl (ConfigurationError ''No FxPractice access token'')
      else Inr (newClient d [Environment ''fxpractice'', TokenAuthenticator token]))"
  by (simp add: NewFxPracticeClient_def NewClient_def)

lemma NewFxTradeClient_result:
  "NewFxTradeClient d token =
     (if token = '''' then Inl (ConfigurationError ''No FxTrade access token'')
      else Inr (newClient d [Environment ''fxtrade'', TokenAuthenticator token]))"
  by (simp add: NewFxTradeClient_def NewClient_def)

text \<open>
  Claim C2, at the input where the code departs from it. \<open>NewClient\<close> with a
  recognised environment and the empty token returns a client and no error; the two
  named constructors reject the empty token before they call \<open>NewClient\<close>.
\<close>

theorem NewClient_empty_token:
  "NewClient () ''fxpractice'' '''' None
     = Inr (newClient () [Environment ''fxpractice'', TokenAuthenticator '''']) \<and>
   NewClient () ''fxtrade'' '''' None
     = Inr (newClient () [Environment ''fxtrade'', TokenAuthenticator '''']) \<and>
   NewFxPracticeClient () '''' = Inl (ConfigurationError ''No FxPractice access token'') \<and>
   NewFxTradeClient () '''' = Inl (ConfigurationError ''No FxTrade access token'')"
  by (simp add: NewClient_def NewFxPracticeClient_def NewFxTradeClient_def)

end
